theory Spec2Isabelle
  imports Complex_Main "HOL-Library.Word"
begin

section \<open>Numbers and external inputs\<close>

text \<open>
  A JavaScript \<open>number\<close> is modelled as a \<^typ>\<open>real\<close>: rounding of doubles, \<open>NaN\<close> and
  the infinities are not part of the model. The one operation of the program that can
  produce an infinity (\<open>60000 / level.bpm\<close>) has its zero case written out.
  An element of a \<open>Uint8Array\<close> is a byte.
\<close>

type_synonym byte = "8 word"

section \<open>The audio processor (\<open>AudioProcessor\<close>)\<close>

text \<open>
  A browser handle (media stream, audio context) is either live or released; a field
  holding \<open>null\<close> is \<open>None\<close>. The analyser node is represented by its \<open>fftSize\<close>.
\<close>

datatype handle_state = Live | Released

record AudioProcessor =
  audioContext :: "handle_state option"
  analyser :: "nat option"
  microphone :: "unit option"
  dataArray :: "byte list option"
  stream :: "handle_state option"
  threshold :: real
  isSounding :: bool

text \<open>Field initialisers of the class: every handle \<open>null\<close>, threshold 30, not sounding.\<close>

definition new_AudioProcessor :: AudioProcessor where
  "new_AudioProcessor =
     \<lparr> audioContext = None, analyser = None, microphone = None, dataArray = None,
       stream = None, threshold = 30, isSounding = False \<rparr>"

definition frequencyBinCount :: "nat \<Rightarrow> nat" where
  "frequencyBinCount fftSize = fftSize div 2"

text \<open>
  The statements of the \<open>try\<close> block of \<open>start()\<close>, in order. Each calls into the browser
  and may throw; the \<open>catch\<close> block logs and rethrows, and nothing that was assigned before
  is undone.
\<close>

datatype start_step =
    GetUserMedia
  | NewAudioContext
  | CreateAnalyser
  | CreateMediaStreamSource
  | SetFftSize
  | NewUint8Array
  | Connect

datatype audio_error = StartFailed start_step

text \<open>
  \<open>start()\<close>: \<open>fails\<close> names the statement that throws, if one does. The result is the
  error thrown, if any, and the processor with the fields assigned up to that point. A
  new analyser has the default \<open>fftSize\<close> of 2048 until it is set to 256.
\<close>

definition start :: "start_step option \<Rightarrow> AudioProcessor \<Rightarrow> audio_error option \<times> AudioProcessor" where
  "start fails p =
     (if fails = Some GetUserMedia then (Some (StartFailed GetUserMedia), p) else
      let p1 = p\<lparr> stream := Some Live \<rparr> in
      if fails = Some NewAudioContext then (Some (StartFailed NewAudioContext), p1) else
      let p2 = p1\<lparr> audioContext := Some Live \<rparr> in
      if fails = Some CreateAnalyser then (Some (StartFailed CreateAnalyser), p2) else
      let p3 = p2\<lparr> analyser := Some 2048 \<rparr> in
      if fails = Some CreateMediaStreamSource
      then (Some (StartFailed CreateMediaStreamSource), p3) else
      let p4 = p3\<lparr> microphone := Some () \<rparr> in
      if fails = Some SetFftSize then (Some (StartFailed SetFftSize), p4) else
      let p5 = p4\<lparr> analyser := Some 256 \<rparr> in
      if fails = Some NewUint8Array then (Some (StartFailed NewUint8Array), p5) else
      let p6 = p5\<lparr> dataArray := Some (replicate (frequencyBinCount 256) 0) \<rparr> in
      if fails = Some Connect then (Some (StartFailed Connect), p6) else (None, p6))"

text \<open>\<open>stop()\<close> stops the tracks and closes the context; it assigns no field.\<close>

definition stop :: "AudioProcessor \<Rightarrow> AudioProcessor" where
  "stop p =
     p\<lparr> stream := (case stream p of None \<Rightarrow> None | Some _ \<Rightarrow> Some Released),
        audioContext := (case audioContext p of None \<Rightarrow> None | Some _ \<Rightarrow> Some Released) \<rparr>"

definition setThreshold :: "real \<Rightarrow> AudioProcessor \<Rightarrow> AudioProcessor" where
  "setThreshold v p = p\<lparr> threshold := v \<rparr>"

text \<open>
  \<open>analyser.getByteFrequencyData(array)\<close> copies the analyser's current frequency data
  \<open>freq\<close> into \<open>array\<close>: surplus data is dropped, surplus array elements keep their value.
\<close>

definition getByteFrequencyData :: "byte list \<Rightarrow> byte list \<Rightarrow> byte list" where
  "getByteFrequencyData freq arr = take (length arr) freq @ drop (length freq) arr"

text \<open>The \<open>for\<close> loop of \<open>getVolume\<close>, started with \<open>max = 0\<close>.\<close>

fun peak_loop :: "byte list \<Rightarrow> nat \<Rightarrow> nat" where
  "peak_loop [] mx = mx"
| "peak_loop (b # bs) mx = peak_loop bs (if unat b > mx then unat b else mx)"

text \<open>
  \<open>getVolume()\<close>: \<open>freq\<close> is what the analyser holds at the time of the call. The result is
  the returned number and the processor with its refilled buffer.
\<close>

definition getVolume :: "AudioProcessor \<Rightarrow> byte list \<Rightarrow> nat \<times> AudioProcessor" where
  "getVolume p freq =
     (case analyser p of
        None \<Rightarrow> (0, p)
      | Some _ \<Rightarrow>
          (case dataArray p of
             None \<Rightarrow> (0, p)
           | Some arr \<Rightarrow>
               (let arr' = getByteFrequencyData freq arr
                in (peak_loop arr' 0, p\<lparr> dataArray := Some arr' \<rparr>))))"

record SoundStatus =
  onset :: bool
  offset :: bool
  sounding :: bool

text \<open>\<open>checkSound()\<close>; the field \<open>isSounding\<close> of the returned object is \<^const>\<open>sounding\<close>.\<close>

definition checkSound :: "AudioProcessor \<Rightarrow> byte list \<Rightarrow> SoundStatus \<times> AudioProcessor" where
  "checkSound p freq =
     (let (volume, p1) = getVolume p freq;
          nowSounding = (real volume > threshold p1);
          on = (nowSounding \<and> \<not> isSounding p1);
          off = (\<not> on \<and> \<not> nowSounding \<and> isSounding p1);
          p2 = p1\<lparr> isSounding := nowSounding \<rparr>
      in (\<lparr> onset = on, offset = off, sounding = isSounding p2 \<rparr>, p2))"

section \<open>Game constants and data (\<open>constants.ts\<close>, \<open>App.tsx\<close>)\<close>

definition CANVAS_WIDTH :: real where "CANVAS_WIDTH = 800"
definition CANVAS_HEIGHT :: real where "CANVAS_HEIGHT = 400"
definition GRAVITY :: real where "GRAVITY = 0.6"
definition JUMP_FORCE :: real where "JUMP_FORCE = - 12"
definition GROUND_Y :: real where "GROUND_Y = CANVAS_HEIGHT - 60"
definition PLAYER_SIZE :: real where "PLAYER_SIZE = 40"
definition OBSTACLE_WIDTH :: real where "OBSTACLE_WIDTH = 30"
definition OBSTACLE_HEIGHT :: real where "OBSTACLE_HEIGHT = 50"

text \<open>The fixed timestep \<open>dt\<close> of \<open>gameLoop\<close>, in milliseconds.\<close>

definition dt :: real where "dt = 16.67"

text \<open>\<open>isPro\<close> is an optional field: \<open>None\<close> when the level object does not have it.\<close>

record LevelConfig =
  level_id :: nat
  level_name :: string
  bpm :: real
  duration :: real
  requiredSounds :: real
  description :: string
  speedMultiplier :: real
  isPro :: "bool option"

definition LEVELS :: "LevelConfig list" where
  "LEVELS =
    [ \<lparr> level_id = 1, level_name = ''Nivel 1: Principiante'', bpm = 50, duration = 120,
        requiredSounds = 10,
        description = ''Pantalla lenta. Realiza 10 sonidos para ganar.'',
        speedMultiplier = 1, isPro = None \<rparr>,
      \<lparr> level_id = 2, level_name = ''Nivel 2: Intermedio'', bpm = 60, duration = 120,
        requiredSounds = 10,
        description = ''Velocidad moderada. Realiza 10 sonidos para ganar.'',
        speedMultiplier = 1.2, isPro = None \<rparr>,
      \<lparr> level_id = 3, level_name = ''Nivel 3: Avanzado'', bpm = 70, duration = 120,
        requiredSounds = 20,
        description = ''Velocidad r'' @ [CHR 0xC3, CHR 0xA1]
                        @ ''pida. Realiza 20 sonidos para ganar.'',
        speedMultiplier = 1.5, isPro = None \<rparr>,
      \<lparr> level_id = 4, level_name = ''Nivel 4: Pro'', bpm = 70, duration = 120,
        requiredSounds = 20,
        description = ''Dificultad escalable. La velocidad aumenta con el tiempo.'',
        speedMultiplier = 1.5, isPro = Some True \<rparr> ]"

datatype run_status = Menu | Playing | Gameover | Win

record GameState =
  status :: run_status
  currentLevel :: "LevelConfig option"
  score :: real
  soundsDetected :: real
  timeLeft :: real

text \<open>
  The player object. \<open>hoverTime\<close> is \<open>None\<close> when the object has no such property
  (reading it gives \<open>undefined\<close>).
\<close>

record Player =
  player_y :: real
  player_vy :: real
  isJumping :: bool
  hoverTime :: "real option"

datatype obstacle_kind = Pipe | Box | Plant

text \<open>
  An obstacle. Its \<open>type\<close> is \<open>None\<close> when the lookup in the three-element array of
  kinds was out of range (it is in range for every \<open>Math.random()\<close> in \<open>[0, 1)\<close>).
\<close>

record Obstacle =
  obs_x :: real
  obs_type :: "obstacle_kind option"

text \<open>
  The component's state: the three state hooks (\<open>threshold\<close> is \<open>ui_threshold\<close> here)
  and the refs that \<open>startGame\<close> and \<open>gameLoop\<close> use. A \<open>setGameState\<close> update is applied
  at once.
\<close>

record App =
  gameState :: GameState
  micEnabled :: bool
  ui_threshold :: real
  proSpeed :: real
  audioProcessorRef :: "AudioProcessor option"
  playerRef :: Player
  obstaclesRef :: "Obstacle list"
  lastObstacleTime :: real
  gameTimeRef :: real
  soundsCountRef :: real

definition initial_App :: App where
  "initial_App =
     \<lparr> gameState = \<lparr> status = Menu, currentLevel = None, score = 0, soundsDetected = 0,
                     timeLeft = 120 \<rparr>,
       micEnabled = False, ui_threshold = 30, proSpeed = 1.5, audioProcessorRef = None,
       playerRef = \<lparr> player_y = GROUND_Y - PLAYER_SIZE, player_vy = 0, isJumping = False,
                     hoverTime = Some 0 \<rparr>,
       obstaclesRef = [], lastObstacleTime = 0, gameTimeRef = 0, soundsCountRef = 0 \<rparr>"

subsection \<open>\<open>startGame\<close>\<close>

text \<open>
  The object literal assigned to \<open>playerRef.current\<close> has the properties \<open>y\<close>, \<open>vy\<close> and
  \<open>isJumping\<close> only.
\<close>

definition startGame :: "LevelConfig \<Rightarrow> App \<Rightarrow> App" where
  "startGame level s =
     (if \<not> micEnabled s then s
      else s\<lparr> gameState := \<lparr> status = Playing, currentLevel = Some level, score = 0,
                               soundsDetected = 0, timeLeft = duration level \<rparr>,
              playerRef := \<lparr> player_y = GROUND_Y - PLAYER_SIZE, player_vy = 0,
                              isJumping = False, hoverTime = None \<rparr>,
              obstaclesRef := [],
              lastObstacleTime := 0,
              gameTimeRef := 0,
              soundsCountRef := 0 \<rparr>)"

subsection \<open>One call of \<open>gameLoop\<close>\<close>

text \<open>
  What a frame reads from outside: the timestamp argument, whether the canvas and its 2D
  context exist, the analyser's data at the two \<open>getVolume\<close> calls, and the values the two
  \<open>Math.random()\<close> calls return if they are made.
\<close>

record FrameInput =
  frame_time :: real
  canvas :: bool
  context2d :: bool
  freq1 :: "byte list"
  freq2 :: "byte list"
  random1 :: real
  random2 :: real

text \<open>Audio detection and the jump on an onset; returns the local \<open>isSounding\<close>.\<close>

definition audio_detection :: "FrameInput \<Rightarrow> App \<Rightarrow> bool \<times> App" where
  "audio_detection inp s =
     (case audioProcessorRef s of
        None \<Rightarrow> (False, s)
      | Some ap \<Rightarrow>
          (let (audioStatus, ap1) = checkSound ap (freq1 inp);
               (volume, ap2) = getVolume ap1 (freq2 inp);
               s1 = s\<lparr> audioProcessorRef := Some ap2 \<rparr>
           in if onset audioStatus
              then (sounding audioStatus,
                    s1\<lparr> playerRef := (playerRef s1)\<lparr> player_vy := JUMP_FORCE,
                                                      isJumping := True,
                                                      hoverTime := Some 0 \<rparr>,
                        soundsCountRef := soundsCountRef s1 + 1,
                        gameState := (gameState s1)\<lparr> soundsDetected := soundsCountRef s1 + 1 \<rparr> \<rparr>)
              else (sounding audioStatus, s1)))"

text \<open>\<open>hoverTime < 2\<close>: a comparison with \<open>undefined\<close> is false.\<close>

definition hover_lt :: "real option \<Rightarrow> real \<Rightarrow> bool" where
  "hover_lt h b = (case h of None \<Rightarrow> False | Some v \<Rightarrow> v < b)"

text \<open>Jump and hover: the velocity update of a frame.\<close>

definition hover_physics :: "bool \<Rightarrow> Player \<Rightarrow> Player" where
  "hover_physics isSnd p =
     (if isSnd \<and> isJumping p then
        (if hover_lt (hoverTime p) 2
         then p\<lparr> player_vy := min (player_vy p) 1.0,
                 hoverTime := map_option (\<lambda>h. h + dt / 1000) (hoverTime p) \<rparr>
         else p\<lparr> player_vy := player_vy p + GRAVITY \<rparr>)
      else p\<lparr> player_vy := player_vy p + GRAVITY \<rparr>)"

text \<open>Integration of the position and the two boundary checks, in the source's order.\<close>

definition ground_clamp :: "Player \<Rightarrow> Player" where
  "ground_clamp p =
     (if player_y p > GROUND_Y - PLAYER_SIZE
      then p\<lparr> player_y := GROUND_Y - PLAYER_SIZE, player_vy := 0, isJumping := False \<rparr>
      else p)"

definition ceiling_clamp :: "Player \<Rightarrow> Player" where
  "ceiling_clamp p =
     (if player_y p < 0 then p\<lparr> player_y := 0, player_vy := 0 \<rparr> else p)"

definition integrate :: "Player \<Rightarrow> Player" where
  "integrate p = ceiling_clamp (ground_clamp (p\<lparr> player_y := player_y p + player_vy p \<rparr>))"

text \<open>
  Obstacle generation. \<open>60000 / 0\<close> is \<open>Infinity\<close>, which no elapsed time exceeds, so a
  level with \<open>bpm = 0\<close> never spawns.
\<close>

definition spawn_due :: "LevelConfig \<Rightarrow> real \<Rightarrow> real \<Rightarrow> bool" where
  "spawn_due level t prev = (bpm level \<noteq> 0 \<and> t - prev > 60000 / bpm level)"

definition obstacle_types :: "obstacle_kind list" where
  "obstacle_types = [Pipe, Box, Plant]"

definition pick_type :: "real \<Rightarrow> obstacle_kind option" where
  "pick_type r =
     (let i = \<lfloor>r * real (length obstacle_types)\<rfloor>
      in if 0 \<le> i \<and> nat i < length obstacle_types then Some (obstacle_types ! nat i)
         else None)"

definition spawn :: "FrameInput \<Rightarrow> LevelConfig \<Rightarrow> App \<Rightarrow> App" where
  "spawn inp level s =
     (if spawn_due level (frame_time inp) (lastObstacleTime s)
      then s\<lparr> obstaclesRef :=
                 (if random1 inp > 0.4
                  then obstaclesRef s @ [\<lparr> obs_x = CANVAS_WIDTH,
                                            obs_type = pick_type (random2 inp) \<rparr>]
                  else obstaclesRef s),
              lastObstacleTime := frame_time inp \<rparr>
      else s)"

definition scrollSpeed :: "LevelConfig \<Rightarrow> App \<Rightarrow> real" where
  "scrollSpeed level s =
     (if isPro level = Some True then proSpeed s else speedMultiplier level) * 4"

definition scroll :: "real \<Rightarrow> Obstacle list \<Rightarrow> Obstacle list" where
  "scroll v obs = map (\<lambda>ob. ob\<lparr> obs_x := obs_x ob - v \<rparr>) obs"

text \<open>Collision detection: the box of an obstacle and the test of the \<open>for\<close> loop.\<close>

definition obsHeight :: "Obstacle \<Rightarrow> real" where
  "obsHeight ob = (if obs_type ob = Some Box then 40 else OBSTACLE_HEIGHT)"

definition obsY :: "Obstacle \<Rightarrow> real" where
  "obsY ob = (if obs_type ob = Some Box then GROUND_Y - 100 else GROUND_Y - obsHeight ob)"

definition hits :: "Player \<Rightarrow> Obstacle \<Rightarrow> bool" where
  "hits p ob =
     (obs_x ob < 50 + PLAYER_SIZE \<and>
      obs_x ob + OBSTACLE_WIDTH > 50 \<and>
      player_y p + PLAYER_SIZE > obsY ob \<and>
      player_y p < obsY ob + obsHeight ob)"

text \<open>
  The loop returns from \<open>gameLoop\<close> at the first obstacle that hits: the result is that
  obstacle together with the obstacles the loop never reached, or \<open>None\<close> when the loop
  ran to its end.
\<close>

fun collision_loop :: "Player \<Rightarrow> Obstacle list \<Rightarrow> (Obstacle \<times> Obstacle list) option" where
  "collision_loop p [] = None"
| "collision_loop p (ob # obs) = (if hits p ob then Some (ob, obs) else collision_loop p obs)"

definition prune :: "Obstacle list \<Rightarrow> Obstacle list" where
  "prune obs = filter (\<lambda>ob. obs_x ob > - OBSTACLE_WIDTH) obs"

text \<open>What the drawing code puts on the canvas, as far as it depends on the state.\<close>

record RenderFrame =
  drawn_player_y :: real
  drawn_glow :: bool
  drawn_obstacles :: "Obstacle list"
  drawn_gameTime :: real

text \<open>
  How a call of \<open>gameLoop\<close> ends: at one of its four \<open>return\<close> statements, or at its last
  line after drawing and requesting the next animation frame.
\<close>

datatype outcome = NotRunning | NoContext | TimeUp | Collided | Drawn RenderFrame

text \<open>
  The middle of a frame, from the audio poll to the scrolling of the obstacles: the
  state the collision loop sees, with the local \<open>isSounding\<close>.
\<close>

definition advance :: "FrameInput \<Rightarrow> LevelConfig \<Rightarrow> App \<Rightarrow> bool \<times> App" where
  "advance inp level s1 =
     (let (isSnd, s2) = audio_detection inp s1;
          s3 = s2\<lparr> playerRef := integrate (hover_physics isSnd (playerRef s2)) \<rparr>;
          s4 = spawn inp level s3;
          s5 = s4\<lparr> obstaclesRef := scroll (scrollSpeed level s4) (obstaclesRef s4) \<rparr>
      in (isSnd, s5))"

definition gameLoop :: "FrameInput \<Rightarrow> App \<Rightarrow> outcome \<times> App" where
  "gameLoop inp s =
     (case currentLevel (gameState s) of
        None \<Rightarrow> (NotRunning, s)
      | Some level \<Rightarrow>
          if status (gameState s) \<noteq> Playing \<or> \<not> canvas inp then (NotRunning, s)
          else if \<not> context2d inp then (NoContext, s)
          else
            (let s1 = s\<lparr> gameTimeRef := gameTimeRef s + dt / 1000 \<rparr>;
                 newTimeLeft = max 0 (duration level - gameTimeRef s1)
             in if newTimeLeft = 0
                then (TimeUp,
                      s1\<lparr> gameState := (gameState s1)
                            \<lparr> status := (if soundsCountRef s1 \<ge> requiredSounds level
                                         then Win else Gameover) \<rparr> \<rparr>)
                else
                  (let (isSnd, s5) = advance inp level s1
                   in case collision_loop (playerRef s5) (obstaclesRef s5) of
                        Some _ \<Rightarrow>
                          (Collided, s5\<lparr> gameState := (gameState s5)\<lparr> status := Gameover \<rparr> \<rparr>)
                      | None \<Rightarrow>
                          (let s6 = s5\<lparr> obstaclesRef := prune (obstaclesRef s5) \<rparr>
                           in (Drawn \<lparr> drawn_player_y = player_y (playerRef s6),
                                       drawn_glow = (isSnd \<and> isJumping (playerRef s6)),
                                       drawn_obstacles = obstaclesRef s6,
                                       drawn_gameTime = gameTimeRef s6 \<rparr>,
                               s6)))))"

subsection \<open>The other handlers of the component\<close>

text \<open>
  \<open>toggleMic\<close>; \<open>fails\<close> is passed on to \<open>start()\<close>. When \<open>start()\<close> throws, the ref
  keeps the processor as \<open>start()\<close> left it and \<open>micEnabled\<close> stays false. The effect on
  \<open>threshold\<close> forwards a changed value to the processor, if there is one.
\<close>

definition toggleMic :: "start_step option \<Rightarrow> App \<Rightarrow> App" where
  "toggleMic fails s =
     (if \<not> micEnabled s then
        (let ap = (case audioProcessorRef s of None \<Rightarrow> new_AudioProcessor | Some a \<Rightarrow> a);
             (err, ap') = start fails ap
         in case err of
              None \<Rightarrow> s\<lparr> audioProcessorRef := Some ap', micEnabled := True \<rparr>
            | Some _ \<Rightarrow> s\<lparr> audioProcessorRef := Some ap' \<rparr>)
      else s\<lparr> audioProcessorRef := map_option stop (audioProcessorRef s),
              micEnabled := False \<rparr>)"

definition changeThreshold :: "real \<Rightarrow> App \<Rightarrow> App" where
  "changeThreshold v s =
     (if v = ui_threshold s then s
      else s\<lparr> ui_threshold := v,
              audioProcessorRef := map_option (setThreshold v) (audioProcessorRef s) \<rparr>)"

definition toMenu :: "App \<Rightarrow> App" where
  "toMenu s = s\<lparr> gameState := (gameState s)\<lparr> status := Menu \<rparr> \<rparr>"

definition retry :: "App \<Rightarrow> App" where
  "retry s = (case currentLevel (gameState s) of None \<Rightarrow> s | Some level \<Rightarrow> startGame level s)"

text \<open>Everything that can happen to the state, and a run of such events.\<close>

datatype event =
    Frame FrameInput
  | StartGame LevelConfig
  | Retry
  | ToMenu
  | ToggleMic "start_step option"
  | ChangeThreshold real
  | SetProSpeed real

fun step :: "App \<Rightarrow> event \<Rightarrow> App" where
  "step s (Frame inp) = snd (gameLoop inp s)"
| "step s (StartGame level) = startGame level s"
| "step s Retry = retry s"
| "step s ToMenu = toMenu s"
| "step s (ToggleMic fails) = toggleMic fails s"
| "step s (ChangeThreshold v) = changeThreshold v s"
| "step s (SetProSpeed v) = s\<lparr> proSpeed := v \<rparr>"

definition run :: "App \<Rightarrow> event list \<Rightarrow> App" where
  "run s evs = foldl step s evs"

section \<open>Notions used in the statements\<close>

text \<open>
  The value of \<open>audioStatus.onset\<close> in a frame that reaches the audio poll; false when
  there is no processor.
\<close>

definition frame_onset :: "FrameInput \<Rightarrow> App \<Rightarrow> bool" where
  "frame_onset inp s =
     (case audioProcessorRef s of
        None \<Rightarrow> False
      | Some ap \<Rightarrow> onset (fst (checkSound ap (freq1 inp))))"

text \<open>
  A microphone session is active when the processor holds a live stream and a live
  audio context.
\<close>

definition session_active :: "App \<Rightarrow> bool" where
  "session_active s =
     (case audioProcessorRef s of
        None \<Rightarrow> False
      | Some ap \<Rightarrow> stream ap = Some Live \<and> audioContext ap = Some Live)"

text \<open>
  The range of the vertical position: between the ceiling and the ground position.
\<close>

definition in_bounds :: "Player \<Rightarrow> bool" where
  "in_bounds p = (0 \<le> player_y p \<and> player_y p \<le> GROUND_Y - PLAYER_SIZE)"

text \<open>
  \<open>n\<close> consecutive frames of the physics step during which the sound continues (so that
  no onset occurs): each is the velocity update with \<open>isSounding = true\<close> followed by the
  integration.
\<close>

primrec sustain :: "nat \<Rightarrow> Player \<Rightarrow> Player" where
  "sustain 0 p = p"
| "sustain (Suc n) p = integrate (hover_physics True (sustain n p))"

text \<open>
  A frame that gets past the guards and the time check of \<open>gameLoop\<close>, and so reaches
  the audio poll and the physics.
\<close>

definition running_frame :: "FrameInput \<Rightarrow> App \<Rightarrow> bool" where
  "running_frame inp s =
     (status (gameState s) = Playing \<and> canvas inp \<and> context2d inp \<and>
      (case currentLevel (gameState s) of
         None \<Rightarrow> False
       | Some level \<Rightarrow> max 0 (duration level - (gameTimeRef s + dt / 1000)) \<noteq> 0))"

text \<open>
  The sound continues in a frame: the processor was sounding and the volume it reads in
  this frame is above the threshold again.
\<close>

definition sound_continues :: "FrameInput \<Rightarrow> App \<Rightarrow> bool" where
  "sound_continues inp s =
     (case audioProcessorRef s of
        None \<Rightarrow> False
      | Some ap \<Rightarrow> isSounding ap \<and> real (fst (getVolume ap (freq1 inp))) > threshold ap)"

text \<open>
  A run of \<open>gameLoop\<close> calls, each of them a running frame in which the sound continues.
\<close>

fun sustained_run :: "App \<Rightarrow> FrameInput list \<Rightarrow> bool" where
  "sustained_run s [] = True"
| "sustained_run s (inp # inps) =
     (running_frame inp s \<and> sound_continues inp s \<and> sustained_run (snd (gameLoop inp s)) inps)"

text \<open>
  A jumping player has a defined hover timer.
\<close>

definition hover_defined :: "Player \<Rightarrow> bool" where
  "hover_defined p = (isJumping p \<longrightarrow> hoverTime p \<noteq> None)"

text \<open>
  Overlap of two boxes, stated independently of the test in the loop: the length of the
  intersection of two intervals, and two boxes overlap strictly when the intersection has
  positive length on both axes. The player's box is 40 by 40 at \<open>x = 50\<close>; the obstacle's
  box is the one the collision code computes for its type.
\<close>

definition overlap_len :: "real \<Rightarrow> real \<Rightarrow> real \<Rightarrow> real \<Rightarrow> real" where
  "overlap_len lo1 hi1 lo2 hi2 = min hi1 hi2 - max lo1 lo2"

definition boxes_overlap :: "Player \<Rightarrow> Obstacle \<Rightarrow> bool" where
  "boxes_overlap p ob =
     (overlap_len 50 (50 + PLAYER_SIZE) (obs_x ob) (obs_x ob + OBSTACLE_WIDTH) > 0 \<and>
      overlap_len (player_y p) (player_y p + PLAYER_SIZE) (obsY ob) (obsY ob + obsHeight ob) > 0)"

subsection \<open>Example data\<close>

text \<open>
  The processor as \<open>start()\<close> leaves a fresh instance when no statement throws.
\<close>

definition started_AudioProcessor :: AudioProcessor where
  "started_AudioProcessor =
     \<lparr> audioContext = Some Live, analyser = Some 256, microphone = Some (),
       dataArray = Some (replicate 128 0), stream = Some Live, threshold = 30,
       isSounding = False \<rparr>"

text \<open>
  A window of 128 bins, one of them at 90 and the others at 0.
\<close>

definition one_bin_90 :: "byte list" where
  "one_bin_90 = replicate 5 0 @ [90] @ replicate 122 0"

text \<open>
  Players and obstacles at chosen positions.
\<close>

definition jumped :: Player where
  "jumped = \<lparr> player_y = GROUND_Y - PLAYER_SIZE, player_vy = JUMP_FORCE, isJumping = True,
              hoverTime = Some 0 \<rparr>"



definition grounded :: "real \<Rightarrow> Player" where
  "grounded v = \<lparr> player_y = v, player_vy = 0, isJumping = False, hoverTime = Some 0 \<rparr>"

definition pipe_at :: "real \<Rightarrow> Obstacle" where
  "pipe_at x = \<lparr> obs_x = x, obs_type = Some Pipe \<rparr>"

definition box_at :: "real \<Rightarrow> Obstacle" where
  "box_at x = \<lparr> obs_x = x, obs_type = Some Box \<rparr>"

text \<open>
  A loud frame, a silent frame, the first level, and states built from them.
\<close>

definition frame0 :: FrameInput where
  "frame0 = \<lparr> frame_time = 0, canvas = True, context2d = True, freq1 = one_bin_90,
              freq2 = one_bin_90, random1 = 0, random2 = 0 \<rparr>"

definition quiet_frame :: FrameInput where
  "quiet_frame = \<lparr> frame_time = 0, canvas = True, context2d = True, freq1 = replicate 128 0,
                    freq2 = replicate 128 0, random1 = 0, random2 = 0 \<rparr>"

definition level1 :: LevelConfig where
  "level1 = \<lparr> level_id = 1, level_name = ''Nivel 1: Principiante'', bpm = 50, duration = 120,
        requiredSounds = 10,
        description = ''Pantalla lenta. Realiza 10 sonidos para ganar.'',
        speedMultiplier = 1, isPro = None \<rparr>"

definition mic_App :: App where
  "mic_App = initial_App\<lparr> audioProcessorRef := Some started_AudioProcessor, micEnabled := True \<rparr>"

definition last_frame_App :: "real \<Rightarrow> App" where
  "last_frame_App n = (startGame level1 mic_App)\<lparr> gameTimeRef := 119.99, soundsCountRef := n \<rparr>"


text \<open>
  The processor after a poll that read \<^const>\<open>one_bin_90\<close>, the player one frame after
  an onset on the ground, a running game in which the sound goes on, and the state after
  the onset frame of a new game.
\<close>

definition loud_AudioProcessor :: AudioProcessor where
  "loud_AudioProcessor = started_AudioProcessor\<lparr> dataArray := Some one_bin_90, isSounding := True \<rparr>"

definition lifted :: Player where
  "lifted = \<lparr> player_y = 288, player_vy = - 12, isJumping = True, hoverTime = Some (dt / 1000) \<rparr>"

definition hovering_App :: "real \<Rightarrow> Player \<Rightarrow> App" where
  "hovering_App t p =
     (startGame level1 mic_App)
       \<lparr> gameState := (gameState (startGame level1 mic_App))\<lparr> soundsDetected := 1 \<rparr>,
         audioProcessorRef := Some loud_AudioProcessor,
         playerRef := p, gameTimeRef := t, soundsCountRef := 1 \<rparr>"

definition onset_App :: App where
  "onset_App = snd (gameLoop frame0 (startGame level1 mic_App))"

definition crash_App :: App where
  "crash_App = (startGame level1 mic_App)\<lparr> obstaclesRef := [pipe_at 94, pipe_at 93, pipe_at 200] \<rparr>"

section \<open>Properties of the audio processor\<close>

lemma getVolume_keeps:
  "threshold (snd (getVolume p freq)) = threshold p"
  "isSounding (snd (getVolume p freq)) = isSounding p"
  "analyser (snd (getVolume p freq)) = analyser p"
  by (simp_all add: getVolume_def Let_def split: option.splits)

lemma getVolume_handles:
  "stream (snd (getVolume p freq)) = stream p"
  "audioContext (snd (getVolume p freq)) = audioContext p"
  by (simp_all add: getVolume_def Let_def split: option.splits)

lemma checkSound_fields:
  "sounding (fst (checkSound p freq)) = (real (fst (getVolume p freq)) > threshold p)"
  "isSounding (snd (checkSound p freq)) = (real (fst (getVolume p freq)) > threshold p)"
  "onset (fst (checkSound p freq)) =
     (real (fst (getVolume p freq)) > threshold p \<and> \<not> isSounding p)"
  "offset (fst (checkSound p freq)) =
     (\<not> real (fst (getVolume p freq)) > threshold p \<and> isSounding p)"
  using getVolume_keeps [of p freq]
  by (auto simp: checkSound_def Let_def split: prod.splits)

lemma checkSound_handles:
  "stream (snd (checkSound p freq)) = stream p"
  "audioContext (snd (checkSound p freq)) = audioContext p"
  by (simp_all add: checkSound_def Let_def case_prod_beta getVolume_handles)

lemma Max_insert2:
  "finite S \<Longrightarrow> Max (insert a (insert b S)) = Max (insert (max a b) S)" for a :: nat
  by (cases "S = {}") (simp_all add: max.assoc)

lemma peak_loop_Max: "peak_loop bs mx = Max (insert mx (unat ` set bs))"
proof (induction bs arbitrary: mx)
  case Nil
  show ?case by simp
next
  case (Cons b bs)
  have "(if unat b > mx then unat b else mx) = max mx (unat b)"
    by (simp add: max_def)
  then have "peak_loop (b # bs) mx = Max (insert (max mx (unat b)) (unat ` set bs))"
    using Cons.IH [of "max mx (unat b)"] by simp
  also have "\<dots> = Max (insert mx (insert (unat b) (unat ` set bs)))"
    using Max_insert2 [of "unat ` set bs" mx "unat b"] by simp
  finally show ?case by simp
qed

lemma peak_zero: "peak_loop (replicate n 0) 0 = 0"
  by (induction n) simp_all

lemma getByteFrequencyData_same_length:
  "length freq = length arr \<Longrightarrow> getByteFrequencyData freq arr = freq"
  by (simp add: getByteFrequencyData_def)

lemma getVolume_started:
  "analyser p = Some a \<Longrightarrow> dataArray p = Some arr \<Longrightarrow>
   fst (getVolume p freq) = peak_loop (getByteFrequencyData freq arr) 0"
  by (simp add: getVolume_def Let_def)

lemma getVolume_setThreshold:
  "fst (getVolume (setThreshold t p) freq) = fst (getVolume p freq)"
  by (simp add: getVolume_def setThreshold_def Let_def split: option.splits)

lemma getVolume_stop:
  "fst (getVolume (stop p) freq) = fst (getVolume p freq)"
  by (simp add: getVolume_def stop_def Let_def split: option.splits)

lemma start_new: "start None new_AudioProcessor = (None, started_AudioProcessor)"
  by (simp add: start_def new_AudioProcessor_def started_AudioProcessor_def
      frequencyBinCount_def)

lemma start_playing_fields:
  "threshold (snd (start fails p)) = threshold p"
  "isSounding (snd (start fails p)) = isSounding p"
  by (simp_all add: start_def Let_def)

lemma start_success:
  "fst (start fails p) = None \<Longrightarrow>
   stream (snd (start fails p)) = Some Live \<and> audioContext (snd (start fails p)) = Some Live
   \<and> analyser (snd (start fails p)) = Some 256
   \<and> dataArray (snd (start fails p)) = Some (replicate 128 0)"
  by (simp add: start_def Let_def frequencyBinCount_def split: if_splits)

lemma peak_single_bin:
  "peak_loop (replicate i 0 @ [90] @ replicate j 0) 0 = 90"
proof -
  have "Max (insert 0 (unat ` set (replicate i 0 @ [90] @ replicate j (0::byte)))) = 90"
    by (intro Max_eqI) auto
  then show ?thesis
    by (simp only: peak_loop_Max)
qed

lemma getVolume_one_bin_90: "fst (getVolume started_AudioProcessor one_bin_90) = 90"
proof -
  have "getByteFrequencyData one_bin_90 (replicate 128 0) = one_bin_90"
    by (rule getByteFrequencyData_same_length) (simp add: one_bin_90_def)
  moreover have "peak_loop one_bin_90 0 = 90"
    unfolding one_bin_90_def by (rule peak_single_bin)
  ultimately show ?thesis
    using getVolume_started [of started_AudioProcessor 256 "replicate 128 0" one_bin_90]
    by (simp add: started_AudioProcessor_def)
qed

text \<open>
  C1. One call of \<open>checkSound\<close> reports an onset exactly when the detector goes from
  quiet to sounding in that call, an offset exactly when it goes from sounding to quiet,
  never both, and both the returned \<open>isSounding\<close> and the stored one equal
  \<open>volume > threshold\<close> for the volume read in that call.
\<close>

theorem checkSound_edges:
  "onset (fst (checkSound p freq))
     = (\<not> isSounding p \<and> isSounding (snd (checkSound p freq)))
   \<and> offset (fst (checkSound p freq))
     = (isSounding p \<and> \<not> isSounding (snd (checkSound p freq)))
   \<and> \<not> (onset (fst (checkSound p freq)) \<and> offset (fst (checkSound p freq)))
   \<and> isSounding (snd (checkSound p freq))
     = (real (fst (getVolume p freq)) > threshold p)
   \<and> sounding (fst (checkSound p freq)) = isSounding (snd (checkSound p freq))"
  by (auto simp: checkSound_fields)

text \<open>
  C8. With a session started (analyser and buffer present, the buffer as long as the
  analyser's data), \<open>getVolume\<close> returns the largest magnitude of the window, 0 for an
  empty window; a window with one bin at 90 and all others at 0 gives 90.
\<close>

theorem getVolume_peak:
  assumes "analyser p = Some a" and "dataArray p = Some arr"
    and "length freq = length arr"
  shows "fst (getVolume p freq) = Max (insert 0 (unat ` set freq))
       \<and> (freq = replicate i 0 @ [90] @ replicate j 0 \<longrightarrow> fst (getVolume p freq) = 90)"
proof -
  have v: "fst (getVolume p freq) = peak_loop freq 0"
    using assms by (simp add: getVolume_started getByteFrequencyData_same_length)
  have "fst (getVolume p freq) = Max (insert 0 (unat ` set freq))"
    by (simp only: v peak_loop_Max)
  moreover have "fst (getVolume p freq) = 90" if "freq = replicate i 0 @ [90] @ replicate j 0"
    using v peak_single_bin [of i j] by (simp only: that)
  ultimately show ?thesis
    by blast
qed

theorem getVolume_peak_witness:
  "fst (getVolume started_AudioProcessor (replicate 5 0 @ [90] @ replicate 122 0)) = 90"
proof -
  have a: "analyser started_AudioProcessor = Some 256"
    and d: "dataArray started_AudioProcessor = Some (replicate 128 0)"
    by (simp_all add: started_AudioProcessor_def)
  have l: "length (replicate 5 0 @ [90] @ replicate 122 (0::byte))
             = length (replicate 128 (0::byte))"
    by simp
  from getVolume_peak [OF a d l, of 5 122] show ?thesis
    by blast
qed

text \<open>
  C9. After \<open>setThreshold t\<close> the next poll classifies a volume reading \<open>V\<close> as sounding
  exactly when \<open>t < V\<close>: a threshold at or above the reading gives not sounding, one
  below it gives sounding. \<open>setThreshold\<close> stores any value as it is.
\<close>

theorem threshold_antitone:
  "(t \<ge> real (fst (getVolume p freq))
      \<longrightarrow> \<not> sounding (fst (checkSound (setThreshold t p) freq)))
   \<and> (t < real (fst (getVolume p freq))
      \<longrightarrow> sounding (fst (checkSound (setThreshold t p) freq)))
   \<and> threshold (setThreshold t p) = t"
  by (simp add: checkSound_fields getVolume_setThreshold) (simp add: setThreshold_def)

theorem threshold_antitone_witness:
  "\<not> sounding (fst (checkSound (setThreshold 90 started_AudioProcessor) one_bin_90))
   \<and> sounding (fst (checkSound (setThreshold 89 started_AudioProcessor) one_bin_90))"
  using threshold_antitone [where t = 90 and p = started_AudioProcessor and freq = one_bin_90]
    threshold_antitone [where t = 89 and p = started_AudioProcessor and freq = one_bin_90]
  by (simp add: getVolume_one_bin_90)

text \<open>
  C6, as the code has it. A processor that was never started (no analyser or no buffer)
  answers \<open>getVolume\<close> with 0 and is left unchanged; \<open>checkSound\<close> then reports
  \<open>0 > threshold\<close>, which is not sounding for every threshold that is not negative.
\<close>

theorem no_session_degrades:
  assumes "analyser p = None \<or> dataArray p = None"
  shows "getVolume p freq = (0, p)
       \<and> sounding (fst (checkSound p freq)) = (0 > threshold p)
       \<and> (0 \<le> threshold p \<longrightarrow> \<not> sounding (fst (checkSound p freq)))"
proof -
  from assms have g: "getVolume p freq = (0, p)"
    by (auto simp: getVolume_def split: option.splits)
  then show ?thesis
    by (simp add: checkSound_fields)
qed

theorem no_session_degrades_witness:
  "getVolume new_AudioProcessor one_bin_90 = (0, new_AudioProcessor)
   \<and> \<not> sounding (fst (checkSound new_AudioProcessor one_bin_90))"
proof -
  have n: "analyser new_AudioProcessor = None \<or> dataArray new_AudioProcessor = None"
    by (simp add: new_AudioProcessor_def)
  have t: "0 \<le> threshold new_AudioProcessor"
    by (simp add: new_AudioProcessor_def)
  from no_session_degrades [OF n, of one_bin_90] t show ?thesis
    by simp
qed

text \<open>
  C6 as stated fails twice. A never-started processor whose threshold was set to \<open>-1\<close>
  reports sounding; and after \<open>stop()\<close> the analyser and the buffer are still set, so
  \<open>getVolume\<close> returns the peak of whatever the analyser delivers.
\<close>

theorem no_session_counterexample:
  "analyser (setThreshold (- 1) new_AudioProcessor) = None
   \<and> sounding (fst (checkSound (setThreshold (- 1) new_AudioProcessor) []))
   \<and> fst (getVolume (stop started_AudioProcessor) one_bin_90) = 90"
  by (simp add: checkSound_fields getVolume_stop getVolume_one_bin_90)
     (simp add: getVolume_def setThreshold_def new_AudioProcessor_def)

section \<open>Properties of the physics step\<close>

lemma ground_level: "GROUND_Y - PLAYER_SIZE = 300"
  by (simp add: GROUND_Y_def PLAYER_SIZE_def CANVAS_HEIGHT_def)


lemma integrate_in_bounds: "in_bounds (integrate p)"
  by (simp add: in_bounds_def integrate_def ground_clamp_def ceiling_clamp_def ground_level)

lemma integrate_hoverTime: "hoverTime (integrate p) = hoverTime p"
  by (simp add: integrate_def ground_clamp_def ceiling_clamp_def)

lemma integrate_isJumping: "isJumping (integrate p) \<Longrightarrow> isJumping p"
  by (simp add: integrate_def ground_clamp_def ceiling_clamp_def split: if_splits)

lemma hover_physics_isJumping: "isJumping (hover_physics b p) = isJumping p"
  by (simp add: hover_physics_def)

lemma hover_physics_hover:
  "b \<Longrightarrow> isJumping p \<Longrightarrow> hoverTime p = Some h \<Longrightarrow> h < 2 \<Longrightarrow>
   hover_physics b p = p\<lparr> player_vy := min (player_vy p) 1, hoverTime := Some (h + dt / 1000) \<rparr>"
  by (simp add: hover_physics_def hover_lt_def)

lemma hover_physics_gravity:
  "\<not> (b \<and> isJumping p \<and> hover_lt (hoverTime p) 2) \<Longrightarrow>
   hover_physics b p = p\<lparr> player_vy := player_vy p + GRAVITY \<rparr>"
  by (auto simp: hover_physics_def)

lemma hover_physics_None: "hoverTime p = None \<Longrightarrow> hoverTime (hover_physics b p) = None"
  by (simp add: hover_physics_def hover_lt_def)

lemma sustain_hoverTime:
  assumes "hoverTime p = Some h"
  shows "\<exists>h'. hoverTime (sustain n p) = Some h'
            \<and> (\<not> isJumping (sustain n p) \<or> 2 \<le> h' \<or> h' = h + real n * (dt / 1000))"
proof (induction n)
  case 0
  show ?case using assms by simp
next
  case (Suc n)
  then obtain h' where h: "hoverTime (sustain n p) = Some h'"
    and d: "\<not> isJumping (sustain n p) \<or> 2 \<le> h' \<or> h' = h + real n * (dt / 1000)"
    by blast
  let ?q = "sustain n p"
  show ?case
  proof (cases "isJumping ?q \<and> h' < 2")
    case True
    with d have e: "h' = h + real n * (dt / 1000)" by auto
    from True h have "hover_physics True ?q =
        ?q\<lparr> player_vy := min (player_vy ?q) 1, hoverTime := Some (h' + dt / 1000) \<rparr>"
      by (simp add: hover_physics_hover)
    then have "hoverTime (sustain (Suc n) p) = Some (h' + dt / 1000)"
      by (simp add: integrate_hoverTime)
    moreover have "h' + dt / 1000 = h + real (Suc n) * (dt / 1000)"
      by (simp add: e algebra_simps)
    ultimately show ?thesis by simp
  next
    case False
    then have "\<not> (True \<and> isJumping ?q \<and> hover_lt (hoverTime ?q) 2)"
      by (auto simp: h hover_lt_def)
    then have g: "hover_physics True ?q = ?q\<lparr> player_vy := player_vy ?q + GRAVITY \<rparr>"
      by (rule hover_physics_gravity)
    then have t: "hoverTime (sustain (Suc n) p) = Some h'"
      by (simp add: integrate_hoverTime h)
    have "\<not> isJumping (sustain (Suc n) p) \<or> 2 \<le> h'"
    proof (cases "isJumping ?q")
      case True
      with False show ?thesis by simp
    next
      case False
      then have "\<not> isJumping (hover_physics True ?q)"
        by (simp add: hover_physics_isJumping)
      then have "\<not> isJumping (sustain (Suc n) p)"
        using integrate_isJumping [of "hover_physics True ?q"] by auto
      then show ?thesis by simp
    qed
    with t show ?thesis by auto
  qed
qed

lemma sustain_gravity:
  assumes "hoverTime p = Some h" and "2 \<le> h + real n * (dt / 1000)"
  shows "hover_physics True (sustain n p) =
           (sustain n p)\<lparr> player_vy := player_vy (sustain n p) + GRAVITY \<rparr>"
proof -
  from sustain_hoverTime [OF assms(1), of n] obtain h'
    where h: "hoverTime (sustain n p) = Some h'"
      and d: "\<not> isJumping (sustain n p) \<or> 2 \<le> h' \<or> h' = h + real n * (dt / 1000)"
    by blast
  from d assms(2) have "\<not> isJumping (sustain n p) \<or> 2 \<le> h'" by auto
  then have "\<not> (True \<and> isJumping (sustain n p) \<and> hover_lt (hoverTime (sustain n p)) 2)"
    by (auto simp: h hover_lt_def)
  then show ?thesis by (rule hover_physics_gravity)
qed

lemma sustain_jumped:
  "n \<le> 120 \<Longrightarrow>
   isJumping (sustain n jumped) \<and> hoverTime (sustain n jumped) = Some (real n * (dt / 1000))
   \<and> player_vy (sustain n jumped) \<le> 0 \<and> in_bounds (sustain n jumped)"
proof (induction n)
  case 0
  show ?case by (simp add: jumped_def in_bounds_def ground_level JUMP_FORCE_def)
next
  case (Suc n)
  let ?q = "sustain n jumped"
  from Suc have j: "isJumping ?q" and h: "hoverTime ?q = Some (real n * (dt / 1000))"
    and v: "player_vy ?q \<le> 0" and b: "in_bounds ?q"
    by simp_all
  from Suc.prems have "real n \<le> 119" by simp
  then have "real n * (dt / 1000) \<le> 119 * (dt / 1000)"
    by (simp add: dt_def)
  then have lt: "real n * (dt / 1000) < 2"
    by (simp add: dt_def)
  have hp: "hover_physics True ?q =
      ?q\<lparr> player_vy := min (player_vy ?q) 1,
           hoverTime := Some (real n * (dt / 1000) + dt / 1000) \<rparr>"
    using j h lt by (simp add: hover_physics_hover)
  have m: "min (player_vy ?q) 1 = player_vy ?q"
    using v by simp
  have "player_y ?q + player_vy ?q \<le> GROUND_Y - PLAYER_SIZE"
    using v b by (simp add: in_bounds_def)
  then have "isJumping (sustain (Suc n) jumped) \<and> player_vy (sustain (Suc n) jumped) \<le> 0"
    using j v by (simp add: hp m integrate_def ground_clamp_def ceiling_clamp_def)
  moreover have "hoverTime (sustain (Suc n) jumped) = Some (real (Suc n) * (dt / 1000))"
    by (simp add: hp integrate_hoverTime algebra_simps)
  ultimately show ?case
    by (simp add: integrate_in_bounds)
qed

section \<open>Properties of a frame\<close>

lemma spawn_playerRef: "playerRef (spawn inp level s) = playerRef s"
  by (simp add: spawn_def)

lemma audio_detection_cases:
  "audioProcessorRef s = None \<Longrightarrow> audio_detection inp s = (False, s)"
  "audioProcessorRef s = Some ap \<Longrightarrow> \<not> onset (fst (checkSound ap (freq1 inp))) \<Longrightarrow>
     audio_detection inp s =
       (sounding (fst (checkSound ap (freq1 inp))),
        s\<lparr> audioProcessorRef :=
             Some (snd (getVolume (snd (checkSound ap (freq1 inp))) (freq2 inp))) \<rparr>)"
  "audioProcessorRef s = Some ap \<Longrightarrow> onset (fst (checkSound ap (freq1 inp))) \<Longrightarrow>
     audio_detection inp s =
       (True,
        s\<lparr> audioProcessorRef :=
             Some (snd (getVolume (snd (checkSound ap (freq1 inp))) (freq2 inp))),
           playerRef := (playerRef s)\<lparr> player_vy := JUMP_FORCE, isJumping := True,
                                        hoverTime := Some 0 \<rparr>,
           soundsCountRef := soundsCountRef s + 1,
           gameState := (gameState s)\<lparr> soundsDetected := soundsCountRef s + 1 \<rparr> \<rparr>)"
  by (auto simp: audio_detection_def Let_def case_prod_beta checkSound_fields)

lemma audio_detection_player:
  "playerRef (snd (audio_detection inp s)) =
     (if frame_onset inp s
      then (playerRef s)\<lparr> player_vy := JUMP_FORCE, isJumping := True, hoverTime := Some 0 \<rparr>
      else playerRef s)"
  by (cases "audioProcessorRef s") (simp_all add: frame_onset_def audio_detection_cases)

lemma audio_detection_sounding:
  "fst (audio_detection inp s) =
     (case audioProcessorRef s of
        None \<Rightarrow> False
      | Some ap \<Rightarrow> sounding (fst (checkSound ap (freq1 inp))))"
  by (cases "audioProcessorRef s")
     (auto simp: audio_detection_def Let_def case_prod_beta)

lemma frame_onset_gameTime [simp]: "frame_onset inp (s\<lparr> gameTimeRef := t \<rparr>) = frame_onset inp s"
  by (simp add: frame_onset_def)

lemma advance_playerRef:
  "playerRef (snd (advance inp level s)) =
     integrate (hover_physics (fst (audio_detection inp s)) (playerRef (snd (audio_detection inp s))))"
  by (simp add: advance_def Let_def case_prod_beta spawn_playerRef)

lemma gameLoop_playerRef:
  "playerRef (snd (gameLoop inp s)) = playerRef s
   \<or> (\<exists>level. playerRef (snd (gameLoop inp s)) =
        playerRef (snd (advance inp level (s\<lparr> gameTimeRef := gameTimeRef s + dt / 1000 \<rparr>))))"
  by (auto simp: gameLoop_def Let_def case_prod_beta split: option.splits)

lemma gameLoop_running_player:
  assumes "status (gameState s) = Playing" and "currentLevel (gameState s) = Some level"
    and "canvas inp" and "context2d inp"
    and "max 0 (duration level - (gameTimeRef s + dt / 1000)) \<noteq> 0"
  shows "playerRef (snd (gameLoop inp s)) =
           integrate (hover_physics (fst (audio_detection inp s))
                        (playerRef (snd (audio_detection inp s))))"
proof -
  let ?s1 = "s\<lparr> gameTimeRef := gameTimeRef s + dt / 1000 \<rparr>"
  have "playerRef (snd (gameLoop inp s)) = playerRef (snd (advance inp level ?s1))"
    using assms by (auto simp: gameLoop_def Let_def case_prod_beta split: option.splits)
  moreover have "fst (audio_detection inp ?s1) = fst (audio_detection inp s)"
    by (simp add: audio_detection_sounding)
  moreover have "playerRef (snd (audio_detection inp ?s1)) = playerRef (snd (audio_detection inp s))"
    by (simp add: audio_detection_player)
  ultimately show ?thesis
    by (simp add: advance_playerRef)
qed

text \<open>
  A frame in which the sound continues is one step of \<^const>\<open>sustain\<close> for the player.
\<close>

lemma gameLoop_sustained_frame:
  assumes "status (gameState s) = Playing" and "currentLevel (gameState s) = Some level"
    and "canvas inp" and "context2d inp"
    and "max 0 (duration level - (gameTimeRef s + dt / 1000)) \<noteq> 0"
    and "audioProcessorRef s = Some ap" and "isSounding ap"
    and "real (fst (getVolume ap (freq1 inp))) > threshold ap"
  shows "playerRef (snd (gameLoop inp s)) = integrate (hover_physics True (playerRef s))"
  using assms(6-8)
  by (simp add: gameLoop_running_player [OF assms(1-5)] audio_detection_sounding
      audio_detection_player frame_onset_def checkSound_fields)

lemma level1_LEVELS: "LEVELS ! 0 = level1"
  by (simp add: LEVELS_def level1_def)

lemma mic_App_toggle: "toggleMic None initial_App = mic_App"
  by (simp add: toggleMic_def initial_App_def mic_App_def start_new)

lemma last_frame_App_facts:
  "status (gameState (last_frame_App n)) = Playing"
  "currentLevel (gameState (last_frame_App n)) = Some level1"
  "gameTimeRef (last_frame_App n) = 119.99"
  "soundsCountRef (last_frame_App n) = n"
  by (simp_all add: last_frame_App_def startGame_def mic_App_def)

lemma frame0_onset: "frame_onset frame0 ((startGame level1 mic_App)\<lparr> gameTimeRef := t \<rparr>)"
  by (simp add: frame_onset_def startGame_def mic_App_def frame0_def checkSound_fields
      getVolume_one_bin_90)
     (simp add: started_AudioProcessor_def)

lemma quiet_frame_no_onset: "\<not> frame_onset quiet_frame (startGame level1 mic_App)"
proof -
  have f: "getByteFrequencyData (replicate 128 0) (replicate 128 0) = replicate 128 0"
    by (rule getByteFrequencyData_same_length) simp
  have "fst (getVolume started_AudioProcessor (replicate 128 0)) = 0"
    unfolding getVolume_def started_AudioProcessor_def
    by (simp only: f peak_zero Let_def option.case AudioProcessor.simps fst_conv)
  then show ?thesis
    by (simp add: frame_onset_def startGame_def mic_App_def quiet_frame_def checkSound_fields)
       (simp add: started_AudioProcessor_def)
qed

lemma running_frame_player:
  assumes "running_frame inp s"
  shows "playerRef (snd (gameLoop inp s)) =
           integrate (hover_physics (fst (audio_detection inp s))
                        (playerRef (snd (audio_detection inp s))))"
proof -
  from assms obtain level where "currentLevel (gameState s) = Some level"
    "status (gameState s) = Playing" "canvas inp" "context2d inp"
    "max 0 (duration level - (gameTimeRef s + dt / 1000)) \<noteq> 0"
    by (auto simp: running_frame_def split: option.splits)
  then show ?thesis
    using gameLoop_running_player [of s level inp] by simp
qed

lemma sustained_frame_player:
  assumes "running_frame inp s" and "sound_continues inp s"
  shows "playerRef (snd (gameLoop inp s)) = integrate (hover_physics True (playerRef s))"
  using assms(2)
  by (auto simp: running_frame_player [OF assms(1)] sound_continues_def
      audio_detection_sounding audio_detection_player frame_onset_def checkSound_fields
      split: option.splits)

lemma sustain_Suc_front: "sustain (Suc n) p = sustain n (integrate (hover_physics True p))"
  by (induction n) simp_all

lemma run_Cons: "run s (ev # evs) = run (step s ev) evs"
  by (simp add: run_def)

lemma run_snoc: "run s (evs @ [ev]) = step (run s evs) ev"
  by (simp add: run_def)

lemma sustained_run_player:
  "sustained_run s inps \<Longrightarrow> playerRef (run s (map Frame inps)) = sustain (length inps) (playerRef s)"
proof (induction inps arbitrary: s)
  case Nil
  show ?case by (simp add: run_def)
next
  case (Cons inp inps)
  then have r: "running_frame inp s" "sound_continues inp s"
    and t: "sustained_run (snd (gameLoop inp s)) inps"
    by simp_all
  have "playerRef (run s (map Frame (inp # inps)))
          = sustain (length inps) (playerRef (snd (gameLoop inp s)))"
    using Cons.IH [OF t] by (simp add: run_Cons)
  also have "\<dots> = sustain (length inps) (integrate (hover_physics True (playerRef s)))"
    by (simp add: sustained_frame_player [OF r])
  finally show ?case
    by (simp only: sustain_Suc_front length_Cons)
qed

lemma sustained_run_append:
  "sustained_run s (inps @ [inp]) =
     (sustained_run s inps \<and> running_frame inp (run s (map Frame inps))
      \<and> sound_continues inp (run s (map Frame inps)))"
  by (induction inps arbitrary: s) (auto simp: run_Cons run_def)

lemma sustained_run_gravity:
  assumes "sustained_run s (inps @ [inp])" and "hoverTime (playerRef s) = Some h"
    and "2 \<le> h + real (length inps) * (dt / 1000)"
  shows "playerRef (run s (map Frame (inps @ [inp]))) =
           integrate ((sustain (length inps) (playerRef s))
             \<lparr> player_vy := player_vy (sustain (length inps) (playerRef s)) + GRAVITY \<rparr>)"
proof -
  let ?s = "run s (map Frame inps)"
  from assms(1) have a: "sustained_run s inps" and r: "running_frame inp ?s"
    and c: "sound_continues inp ?s"
    by (simp_all add: sustained_run_append)
  have p: "playerRef ?s = sustain (length inps) (playerRef s)"
    by (rule sustained_run_player [OF a])
  have "playerRef (run s (map Frame (inps @ [inp]))) = playerRef (snd (gameLoop inp ?s))"
    by (simp add: run_snoc)
  also have "\<dots> = integrate (hover_physics True (playerRef ?s))"
    by (rule sustained_frame_player [OF r c])
  finally show ?thesis
    by (simp add: p sustain_gravity [OF assms(2,3)])
qed

lemma peak_one_bin_90: "peak_loop one_bin_90 0 = 90"
  unfolding one_bin_90_def by (rule peak_single_bin)

lemma getVolume_loud:
  "getVolume loud_AudioProcessor one_bin_90 = (90, loud_AudioProcessor)"
  "getVolume started_AudioProcessor one_bin_90
     = (90, started_AudioProcessor\<lparr> dataArray := Some one_bin_90 \<rparr>)"
proof -
  have a: "getByteFrequencyData one_bin_90 one_bin_90 = one_bin_90"
    by (rule getByteFrequencyData_same_length) simp
  have b: "getByteFrequencyData one_bin_90 (replicate 128 0) = one_bin_90"
    by (rule getByteFrequencyData_same_length) (simp add: one_bin_90_def)
  show "getVolume loud_AudioProcessor one_bin_90 = (90, loud_AudioProcessor)"
    by (simp add: getVolume_def loud_AudioProcessor_def started_AudioProcessor_def a
        peak_one_bin_90)
  show "getVolume started_AudioProcessor one_bin_90
     = (90, started_AudioProcessor\<lparr> dataArray := Some one_bin_90 \<rparr>)"
    by (simp add: getVolume_def started_AudioProcessor_def b peak_one_bin_90)
qed

lemma checkSound_loud:
  "checkSound loud_AudioProcessor one_bin_90
     = (\<lparr> onset = False, offset = False, sounding = True \<rparr>, loud_AudioProcessor)"
  "checkSound started_AudioProcessor one_bin_90
     = (\<lparr> onset = True, offset = False, sounding = True \<rparr>, loud_AudioProcessor)"
  by (simp_all add: checkSound_def getVolume_loud)
     (simp_all add: loud_AudioProcessor_def started_AudioProcessor_def)

lemma hovering_frame:
  assumes "t + dt / 1000 < 120"
  shows "running_frame frame0 (hovering_App t p)"
    and "sound_continues frame0 (hovering_App t p)"
    and "snd (gameLoop frame0 (hovering_App t p))
           = hovering_App (t + dt / 1000) (integrate (hover_physics True p))"
proof -
  show r: "running_frame frame0 (hovering_App t p)"
    using assms
    by (simp add: running_frame_def hovering_App_def startGame_def mic_App_def frame0_def
        level1_def)
  show "sound_continues frame0 (hovering_App t p)"
    by (simp add: sound_continues_def hovering_App_def frame0_def getVolume_loud)
       (simp add: loud_AudioProcessor_def started_AudioProcessor_def)
  have a: "audio_detection frame0 ((hovering_App t p)\<lparr> gameTimeRef := u \<rparr>)
             = (True, (hovering_App t p)\<lparr> gameTimeRef := u \<rparr>)" for u
    by (simp add: audio_detection_def hovering_App_def frame0_def checkSound_loud
        getVolume_loud)
  have b: "advance frame0 level1 ((hovering_App t p)\<lparr> gameTimeRef := u \<rparr>)
             = (True, hovering_App u (integrate (hover_physics True p)))" for u
    by (simp add: advance_def a)
       (simp add: hovering_App_def startGame_def mic_App_def spawn_def spawn_due_def
         level1_def frame0_def scroll_def)
  show "snd (gameLoop frame0 (hovering_App t p))
           = hovering_App (t + dt / 1000) (integrate (hover_physics True p))"
  proof -
    have c: "status (gameState (hovering_App t p)) = Playing"
      "currentLevel (gameState (hovering_App t p)) = Some level1"
      "gameTimeRef (hovering_App t p) = t" "canvas frame0" "context2d frame0"
      by (simp_all add: hovering_App_def startGame_def mic_App_def frame0_def)
    have d: "max 0 (duration level1 - (t + dt / 1000)) \<noteq> 0"
      using assms by (simp add: level1_def)
    have e: "obstaclesRef (hovering_App u q) = []" for u q
      by (simp add: hovering_App_def startGame_def mic_App_def)
    have f: "(hovering_App u q)\<lparr> obstaclesRef := [] \<rparr> = hovering_App u q" for u q
      by (simp add: hovering_App_def startGame_def mic_App_def)
    show ?thesis
      using d by (simp add: gameLoop_def c b e f prune_def Let_def)
  qed
qed

lemma hovering_sustained:
  "t + real n * (dt / 1000) < 120 \<Longrightarrow> sustained_run (hovering_App t p) (replicate n frame0)"
proof (induction n arbitrary: t p)
  case 0
  show ?case by simp
next
  case (Suc n)
  have d: "0 \<le> dt / 1000" by (simp add: dt_def)
  have e: "real (Suc n) * (dt / 1000) = dt / 1000 + real n * (dt / 1000)"
    by (simp add: algebra_simps)
  have "0 \<le> real n * (dt / 1000)" using d by simp
  with Suc.prems e have a: "t + dt / 1000 < 120"
    by linarith
  have "(t + dt / 1000) + real n * (dt / 1000) < 120"
    using Suc.prems e by linarith
  then have "sustained_run (hovering_App (t + dt / 1000) (integrate (hover_physics True p)))
               (replicate n frame0)"
    by (rule Suc.IH)
  then show ?case
    by (simp add: hovering_frame [OF a])
qed

lemma onset_App_eq: "onset_App = hovering_App (dt / 1000) lifted"
proof -
  let ?s = "startGame level1 mic_App"
  have a: "audio_detection frame0 (?s\<lparr> gameTimeRef := u \<rparr>)
             = (True, (hovering_App u jumped))" for u
    by (simp add: audio_detection_def startGame_def mic_App_def frame0_def checkSound_loud
        getVolume_loud Let_def)
       (simp add: hovering_App_def startGame_def mic_App_def initial_App_def jumped_def)
  have l: "integrate (hover_physics True jumped) = lifted"
    by (simp add: hover_physics_def hover_lt_def jumped_def integrate_def ground_clamp_def
        ceiling_clamp_def ground_level JUMP_FORCE_def lifted_def)
  have b: "advance frame0 level1 (?s\<lparr> gameTimeRef := u \<rparr>) = (True, hovering_App u lifted)" for u
    by (simp add: advance_def a l)
       (simp add: hovering_App_def startGame_def mic_App_def spawn_def spawn_due_def
         level1_def frame0_def scroll_def l)
  have c: "status (gameState ?s) = Playing" "currentLevel (gameState ?s) = Some level1"
    "gameTimeRef ?s = 0" "canvas frame0" "context2d frame0"
    by (simp_all add: startGame_def mic_App_def frame0_def)
  have d: "max 0 (duration level1 - (dt / 1000)) \<noteq> 0"
    by (simp add: level1_def dt_def)
  have e: "obstaclesRef (hovering_App u q) = []" for u q
    by (simp add: hovering_App_def startGame_def mic_App_def)
  have f: "(hovering_App u q)\<lparr> obstaclesRef := [] \<rparr> = hovering_App u q" for u q
    by (simp add: hovering_App_def startGame_def mic_App_def)
  show ?thesis
    using d by (simp add: onset_App_def gameLoop_def c b e f prune_def Let_def)
qed

lemma onset_App_sustained: "sustained_run onset_App (replicate 119 frame0 @ [frame0])"
proof -
  have "sustained_run (hovering_App (dt / 1000) lifted) (replicate 120 frame0)"
    by (rule hovering_sustained) (simp add: dt_def)
  moreover have "replicate (Suc 119) frame0 = replicate 119 frame0 @ [frame0]"
    by (simp only: replicate_Suc replicate_append_same)
  moreover have "Suc 119 = 120"
    by simp
  ultimately show ?thesis
    by (simp only: onset_App_eq)
qed

lemma quiet_reset_frame:
  "running_frame quiet_frame (startGame level1 mic_App)"
  "fst (audio_detection quiet_frame (startGame level1 mic_App)) = False"
  "playerRef (snd (audio_detection quiet_frame (startGame level1 mic_App)))
     = playerRef (startGame level1 mic_App)"
proof -
  show "running_frame quiet_frame (startGame level1 mic_App)"
    by (simp add: running_frame_def startGame_def mic_App_def quiet_frame_def level1_def dt_def)
  have n: "\<not> frame_onset quiet_frame (startGame level1 mic_App)"
    by (rule quiet_frame_no_onset)
  show "playerRef (snd (audio_detection quiet_frame (startGame level1 mic_App)))
     = playerRef (startGame level1 mic_App)"
    by (simp add: audio_detection_player n)
  have f: "getByteFrequencyData (replicate 128 0) (replicate 128 0) = replicate 128 0"
    by (rule getByteFrequencyData_same_length) simp
  have "fst (getVolume started_AudioProcessor (replicate 128 0)) = 0"
    unfolding getVolume_def started_AudioProcessor_def
    by (simp only: f peak_zero Let_def option.case AudioProcessor.simps fst_conv)
  then show "fst (audio_detection quiet_frame (startGame level1 mic_App)) = False"
    by (simp add: audio_detection_sounding startGame_def mic_App_def quiet_frame_def
        checkSound_fields)
       (simp add: started_AudioProcessor_def)
qed

text \<open>
  C3. In the velocity update of a frame: when the player is sounding and jumping and the
  hover timer is below 2 seconds, the velocity becomes \<open>min vy 1.0\<close> and the hover timer
  grows by the timestep; in every other case gravity is added to the velocity. Every
  running frame of \<open>gameLoop\<close> applies this update, with the \<open>isSounding\<close> and the player
  that the audio poll leaves, and then integrates. So over a run of frames in which the
  sound continues the player follows \<^const>\<open>sustain\<close>, and once such frames have brought the
  hover timer to 2 seconds the next frame adds gravity although the sound continues.
\<close>

theorem hover_budget:
  "(isSnd \<and> isJumping p \<and> hoverTime p = Some h \<and> h < 2 \<longrightarrow>
      hover_physics isSnd p =
        p\<lparr> player_vy := min (player_vy p) 1.0, hoverTime := Some (h + dt / 1000) \<rparr>)
   \<and> (\<not> (isSnd \<and> isJumping p \<and> hover_lt (hoverTime p) 2) \<longrightarrow>
      hover_physics isSnd p = p\<lparr> player_vy := player_vy p + GRAVITY \<rparr>)
   \<and> (hoverTime p = Some h \<and> 2 \<le> h \<longrightarrow>
      hover_physics isSnd p = p\<lparr> player_vy := player_vy p + GRAVITY \<rparr>)
   \<and> (hoverTime p = Some h \<and> 2 \<le> h + real n * (dt / 1000) \<longrightarrow>
      hover_physics True (sustain n p) =
        (sustain n p)\<lparr> player_vy := player_vy (sustain n p) + GRAVITY \<rparr>)
   \<and> (running_frame inp s \<longrightarrow>
      playerRef (snd (gameLoop inp s)) =
        integrate (hover_physics (fst (audio_detection inp s))
                     (playerRef (snd (audio_detection inp s)))))
   \<and> (sustained_run s inps \<longrightarrow>
      playerRef (run s (map Frame inps)) = sustain (length inps) (playerRef s))
   \<and> (sustained_run s (inps @ [inp]) \<and> hoverTime (playerRef s) = Some h
        \<and> 2 \<le> h + real (length inps) * (dt / 1000) \<longrightarrow>
      playerRef (run s (map Frame (inps @ [inp]))) =
        integrate ((sustain (length inps) (playerRef s))
          \<lparr> player_vy := player_vy (sustain (length inps) (playerRef s)) + GRAVITY \<rparr>))"
proof -
  have "hover_physics isSnd p = p\<lparr> player_vy := player_vy p + GRAVITY \<rparr>"
    if "hoverTime p = Some h" "2 \<le> h"
    using that by (intro hover_physics_gravity) (simp add: hover_lt_def)
  then show ?thesis
    using hover_physics_hover [of isSnd p h] hover_physics_gravity [of isSnd p]
      sustain_gravity [of p h n] running_frame_player [of inp s]
      sustained_run_player [of s inps] sustained_run_gravity [of s inps inp h]
    by simp
qed

theorem hover_budget_witness:
  "hover_physics True jumped =
      jumped\<lparr> player_vy := min (player_vy jumped) 1.0, hoverTime := Some (0 + dt / 1000) \<rparr>
   \<and> hover_physics False jumped = jumped\<lparr> player_vy := player_vy jumped + GRAVITY \<rparr>
   \<and> hover_physics True (jumped\<lparr> hoverTime := Some 2 \<rparr>) =
        jumped\<lparr> hoverTime := Some 2, player_vy := player_vy jumped + GRAVITY \<rparr>
   \<and> hover_physics True (sustain 120 jumped) =
        (sustain 120 jumped)\<lparr> player_vy := player_vy (sustain 120 jumped) + GRAVITY \<rparr>
   \<and> isJumping (sustain 120 jumped)
   \<and> playerRef (snd (gameLoop quiet_frame (startGame level1 mic_App))) =
        integrate (hover_physics False (playerRef (startGame level1 mic_App)))
   \<and> playerRef onset_App = lifted
   \<and> playerRef (run onset_App (map Frame (replicate 119 frame0))) = sustain 119 lifted
   \<and> isJumping (sustain 119 lifted)
   \<and> playerRef (run onset_App (map Frame (replicate 119 frame0 @ [frame0]))) =
        integrate ((sustain 119 lifted)\<lparr> player_vy := player_vy (sustain 119 lifted) + GRAVITY \<rparr>)"
proof -
  have a: "isJumping jumped" "hoverTime jumped = Some 0"
    by (simp_all add: jumped_def)
  have b: "(2::real) \<le> 0 + real 120 * (dt / 1000)"
    by (simp add: dt_def)
  have c: "hoverTime (jumped\<lparr> hoverTime := Some 2 \<rparr>) = Some 2"
    by simp
  have d: "isJumping (sustain 120 jumped)"
    using sustain_jumped [of 120] by simp
  have l: "lifted = sustain 1 jumped"
    by (simp add: hover_physics_def hover_lt_def jumped_def integrate_def ground_clamp_def
        ceiling_clamp_def ground_level JUMP_FORCE_def lifted_def)
  have "sustain 119 (sustain 1 jumped) = sustain 120 jumped"
    using sustain_Suc_front [of 119 jumped] by simp
  then have e: "isJumping (sustain 119 lifted)"
    using d by (simp only: l)
  have f: "playerRef onset_App = lifted" "hoverTime (playerRef onset_App) = Some (dt / 1000)"
    by (simp_all add: onset_App_eq hovering_App_def lifted_def)
  have g: "sustained_run onset_App (replicate 119 frame0)"
    using onset_App_sustained by (simp add: sustained_run_append)
  have h: "(2::real) \<le> dt / 1000 + real (length (replicate 119 frame0)) * (dt / 1000)"
    by (simp add: dt_def)
  from hover_budget [where isSnd = True and p = jumped and h = 0 and n = 120]
    hover_budget [where isSnd = False and p = jumped and h = 0 and n = 0]
    hover_budget [where isSnd = True and p = "jumped\<lparr> hoverTime := Some 2 \<rparr>" and h = 2 and n = 0]
    hover_budget [where inp = quiet_frame and s = "startGame level1 mic_App"]
    hover_budget [where s = onset_App and inps = "replicate 119 frame0" and inp = frame0
      and h = "dt / 1000"]
    a b c d e f g h onset_App_sustained quiet_reset_frame
  show ?thesis
    by simp
qed

subsection \<open>The position stays on the playfield\<close>





subsection \<open>End of the level\<close>

text \<open>
  C2. In a frame of a running game whose remaining time \<open>max 0 (duration - elapsed)\<close> is
  0 (that is, the elapsed time has reached the duration), \<open>gameLoop\<close> returns at once:
  only the elapsed time and the status change, and the status is \<open>Win\<close> when the onset
  count has reached \<open>requiredSounds\<close> and \<open>Gameover\<close> otherwise. With a duration of 120
  and 10 required sounds, 10 onsets win and 9 lose.
\<close>

theorem gameLoop_time_up:
  assumes "status (gameState s) = Playing" and "currentLevel (gameState s) = Some level"
    and "canvas inp" and "context2d inp"
    and "max 0 (duration level - (gameTimeRef s + dt / 1000)) = 0"
  shows "gameLoop inp s =
           (TimeUp, s\<lparr> gameTimeRef := gameTimeRef s + dt / 1000,
                       gameState := (gameState s)
                         \<lparr> status := (if soundsCountRef s \<ge> requiredSounds level
                                      then Win else Gameover) \<rparr> \<rparr>)
       \<and> duration level \<le> gameTimeRef s + dt / 1000
       \<and> (duration level = 120 \<and> requiredSounds level = 10 \<and> soundsCountRef s = 10
            \<longrightarrow> status (gameState (snd (gameLoop inp s))) = Win)
       \<and> (duration level = 120 \<and> requiredSounds level = 10 \<and> soundsCountRef s = 9
            \<longrightarrow> status (gameState (snd (gameLoop inp s))) = Gameover)"
proof -
  have g: "gameLoop inp s =
           (TimeUp, s\<lparr> gameTimeRef := gameTimeRef s + dt / 1000,
                       gameState := (gameState s)
                         \<lparr> status := (if soundsCountRef s \<ge> requiredSounds level
                                      then Win else Gameover) \<rparr> \<rparr>)"
    using assms by (simp add: gameLoop_def Let_def)
  have e: "duration level \<le> gameTimeRef s + dt / 1000"
    using assms(5) by (simp add: max_def split: if_splits)
  show ?thesis
    by (simp add: g e)
qed

theorem gameLoop_time_up_witness:
  "status (gameState (snd (gameLoop frame0 (last_frame_App 10)))) = Win
   \<and> status (gameState (snd (gameLoop frame0 (last_frame_App 9)))) = Gameover
   \<and> fst (gameLoop frame0 (last_frame_App 9)) = TimeUp
   \<and> playerRef (snd (gameLoop frame0 (last_frame_App 9))) = playerRef (last_frame_App 9)
   \<and> audioProcessorRef (snd (gameLoop frame0 (last_frame_App 9)))
        = audioProcessorRef (last_frame_App 9)"
proof -
  have t: "max 0 (duration level1 - (gameTimeRef (last_frame_App n) + dt / 1000)) = 0" for n
    by (simp add: last_frame_App_facts level1_def dt_def)
  have c: "canvas frame0" "context2d frame0"
    by (simp_all add: frame0_def)
  have l: "duration level1 = 120" "requiredSounds level1 = 10"
    by (simp_all add: level1_def)
  from gameLoop_time_up [OF last_frame_App_facts(1,2) c t, of 10]
    gameLoop_time_up [OF last_frame_App_facts(1,2) c t, of 9]
  show ?thesis
    by (simp add: last_frame_App_facts l)
qed

subsection \<open>Collisions\<close>

lemma obsHeight_pos: "0 < obsHeight ob"
  by (simp add: obsHeight_def OBSTACLE_HEIGHT_def)

lemma hits_overlap: "hits p ob = boxes_overlap p ob"
  using obsHeight_pos [of ob]
  by (auto simp: hits_def boxes_overlap_def overlap_len_def PLAYER_SIZE_def OBSTACLE_WIDTH_def)

lemma collision_loop_None: "(collision_loop p obs = None) = (\<forall>ob \<in> set obs. \<not> hits p ob)"
  by (induction obs) simp_all

lemma collision_loop_first:
  "\<forall>ob \<in> set pre. \<not> hits p ob \<Longrightarrow> hits p ob \<Longrightarrow>
   collision_loop p (pre @ ob # rest) = Some (ob, rest)"
  by (induction pre) simp_all

lemma gameLoop_collision_stage:
  assumes "status (gameState s) = Playing" and "currentLevel (gameState s) = Some level"
    and "canvas inp" and "context2d inp"
    and "max 0 (duration level - (gameTimeRef s + dt / 1000)) \<noteq> 0"
    and "s5 = snd (advance inp level (s\<lparr> gameTimeRef := gameTimeRef s + dt / 1000 \<rparr>))"
  shows "collision_loop (playerRef s5) (obstaclesRef s5) \<noteq> None \<Longrightarrow>
           gameLoop inp s = (Collided, s5\<lparr> gameState := (gameState s5)\<lparr> status := Gameover \<rparr> \<rparr>)"
    and "collision_loop (playerRef s5) (obstaclesRef s5) = None \<Longrightarrow>
           fst (gameLoop inp s) \<noteq> Collided \<and>
           snd (gameLoop inp s) = s5\<lparr> obstaclesRef := prune (obstaclesRef s5) \<rparr>"
  using assms by (auto simp: gameLoop_def Let_def case_prod_beta)

lemma hits_examples:
  "boxes_overlap (grounded 300) (pipe_at 90) = False"
  "boxes_overlap (grounded 300) (pipe_at 89) = True"
  "boxes_overlap (grounded 300) (pipe_at 20) = False"
  "boxes_overlap (grounded 300) (pipe_at 21) = True"
  "boxes_overlap (grounded 280) (box_at 60) = False"
  "boxes_overlap (grounded 279) (box_at 60) = True"
  "boxes_overlap (grounded 250) (pipe_at 60) = False"
  "boxes_overlap (grounded 251) (pipe_at 60) = True"
  by (simp_all add: boxes_overlap_def overlap_len_def grounded_def pipe_at_def box_at_def
      obsY_def obsHeight_def PLAYER_SIZE_def OBSTACLE_WIDTH_def OBSTACLE_HEIGHT_def
      GROUND_Y_def CANVAS_HEIGHT_def)

lemma crash_advance:
  "snd (advance quiet_frame level1 (crash_App\<lparr> gameTimeRef := gameTimeRef crash_App + dt / 1000 \<rparr>))
     = crash_App\<lparr> gameTimeRef := dt / 1000,
                  audioProcessorRef := Some started_AudioProcessor,
                  playerRef := \<lparr> player_y = 300, player_vy = 0, isJumping = False,
                                  hoverTime = None \<rparr>,
                  obstaclesRef := [pipe_at 90, pipe_at 89, pipe_at 196] \<rparr>"
proof -
  have f: "getByteFrequencyData (replicate 128 0) (replicate 128 0) = replicate 128 0"
    by (rule getByteFrequencyData_same_length) simp
  have g: "getVolume started_AudioProcessor (replicate 128 0) = (0, started_AudioProcessor)"
    unfolding getVolume_def started_AudioProcessor_def
    by (simp only: f peak_zero Let_def option.case AudioProcessor.simps)
  have c: "checkSound started_AudioProcessor (replicate 128 0)
             = (\<lparr> onset = False, offset = False, sounding = False \<rparr>, started_AudioProcessor)"
    by (simp add: checkSound_def g Let_def) (simp add: started_AudioProcessor_def)
  have a: "audio_detection quiet_frame (crash_App\<lparr> gameTimeRef := t \<rparr>)
             = (False, crash_App\<lparr> gameTimeRef := t,
                                   audioProcessorRef := Some started_AudioProcessor \<rparr>)" for t
    by (simp add: audio_detection_def crash_App_def startGame_def mic_App_def quiet_frame_def
        c g Let_def)
  show ?thesis
    by (simp add: advance_def a Let_def)
       (simp add: crash_App_def startGame_def mic_App_def initial_App_def quiet_frame_def
         hover_physics_def integrate_def ground_clamp_def ceiling_clamp_def ground_level
         GRAVITY_def spawn_def spawn_due_def level1_def scrollSpeed_def scroll_def pipe_at_def)
qed

text \<open>
  C5. The test of the collision loop holds exactly when the player's box and the
  obstacle's box overlap strictly on both axes. The loop finds a hit exactly when some
  obstacle overlaps, it stops at the first one and leaves the obstacles after it
  unexamined, and a frame that reaches the loop ends in \<open>Gameover\<close> without pruning or
  drawing exactly when some obstacle overlaps.
\<close>

theorem collision_strict_overlap:
  "hits p ob = boxes_overlap p ob
   \<and> (collision_loop p obs \<noteq> None) = (\<exists>ob \<in> set obs. boxes_overlap p ob)
   \<and> ((\<forall>ob \<in> set pre. \<not> boxes_overlap p ob) \<and> boxes_overlap p ob \<longrightarrow>
        collision_loop p (pre @ ob # rest) = Some (ob, rest))
   \<and> (status (gameState s) = Playing \<and> currentLevel (gameState s) = Some level
        \<and> canvas inp \<and> context2d inp
        \<and> max 0 (duration level - (gameTimeRef s + dt / 1000)) \<noteq> 0
        \<and> s5 = snd (advance inp level (s\<lparr> gameTimeRef := gameTimeRef s + dt / 1000 \<rparr>)) \<longrightarrow>
        (fst (gameLoop inp s) = Collided)
          = (\<exists>ob \<in> set (obstaclesRef s5). boxes_overlap (playerRef s5) ob)
      \<and> ((\<exists>ob \<in> set (obstaclesRef s5). boxes_overlap (playerRef s5) ob) \<longrightarrow>
           gameLoop inp s
             = (Collided, s5\<lparr> gameState := (gameState s5)\<lparr> status := Gameover \<rparr> \<rparr>)))"
proof -
  have a: "(collision_loop p obs \<noteq> None) = (\<exists>ob \<in> set obs. boxes_overlap p ob)" for p obs
    by (simp add: collision_loop_None hits_overlap)
  have b: "collision_loop p (pre @ ob # rest) = Some (ob, rest)"
    if "\<forall>ob \<in> set pre. \<not> boxes_overlap p ob" "boxes_overlap p ob"
    using that by (intro collision_loop_first) (simp_all add: hits_overlap)
  have c: "(fst (gameLoop inp s) = Collided)
          = (\<exists>ob \<in> set (obstaclesRef s5). boxes_overlap (playerRef s5) ob)
      \<and> ((\<exists>ob \<in> set (obstaclesRef s5). boxes_overlap (playerRef s5) ob) \<longrightarrow>
           gameLoop inp s
             = (Collided, s5\<lparr> gameState := (gameState s5)\<lparr> status := Gameover \<rparr> \<rparr>))"
    if h: "status (gameState s) = Playing" "currentLevel (gameState s) = Some level"
      "canvas inp" "context2d inp"
      "max 0 (duration level - (gameTimeRef s + dt / 1000)) \<noteq> 0"
      "s5 = snd (advance inp level (s\<lparr> gameTimeRef := gameTimeRef s + dt / 1000 \<rparr>))"
  proof (cases "collision_loop (playerRef s5) (obstaclesRef s5) = None")
    case True
    with gameLoop_collision_stage(2) [OF h] a [of "playerRef s5" "obstaclesRef s5"]
    show ?thesis by simp
  next
    case False
    with gameLoop_collision_stage(1) [OF h] a [of "playerRef s5" "obstaclesRef s5"]
    show ?thesis by simp
  qed
  show ?thesis
    using a b c hits_overlap [of p ob] by blast
qed

theorem collision_strict_overlap_witness:
  "\<not> hits (grounded 300) (pipe_at 90) \<and> hits (grounded 300) (pipe_at 89)
   \<and> \<not> hits (grounded 280) (box_at 60) \<and> hits (grounded 279) (box_at 60)
   \<and> collision_loop (grounded 300) ([pipe_at 90] @ pipe_at 89 # [pipe_at 196])
        = Some (pipe_at 89, [pipe_at 196])
   \<and> fst (gameLoop quiet_frame crash_App) = Collided
   \<and> status (gameState (snd (gameLoop quiet_frame crash_App))) = Gameover
   \<and> obstaclesRef (snd (gameLoop quiet_frame crash_App)) = [pipe_at 90, pipe_at 89, pipe_at 196]"
proof -
  let ?s5 = "snd (advance quiet_frame level1
                (crash_App\<lparr> gameTimeRef := gameTimeRef crash_App + dt / 1000 \<rparr>))"
  have p: "status (gameState crash_App) = Playing"
    "currentLevel (gameState crash_App) = Some level1"
    "canvas quiet_frame" "context2d quiet_frame"
    "max 0 (duration level1 - (gameTimeRef crash_App + dt / 1000)) \<noteq> 0"
    by (simp_all add: crash_App_def startGame_def mic_App_def quiet_frame_def level1_def dt_def)
  have q: "playerRef ?s5 = \<lparr> player_y = 300, player_vy = 0, isJumping = False, hoverTime = None \<rparr>"
    "obstaclesRef ?s5 = [pipe_at 90, pipe_at 89, pipe_at 196]"
    by (simp_all add: crash_advance)
  have o: "boxes_overlap (playerRef ?s5) (pipe_at 89)"
    by (simp add: q boxes_overlap_def overlap_len_def pipe_at_def
      obsY_def obsHeight_def PLAYER_SIZE_def OBSTACLE_WIDTH_def OBSTACLE_HEIGHT_def
      GROUND_Y_def CANVAS_HEIGHT_def)
  from collision_strict_overlap [of "grounded 300" "pipe_at 90"]
    collision_strict_overlap [of "grounded 280" "box_at 60"]
    collision_strict_overlap [of "grounded 279" "box_at 60"]
    collision_strict_overlap [of "grounded 300" "pipe_at 89" _ "[pipe_at 90]" "[pipe_at 196]"
      crash_App level1 quiet_frame ?s5]
    p o
  show ?thesis
    by (simp add: hits_examples q)
qed

section \<open>Properties of \<open>startGame\<close> and of runs\<close>

lemma audio_detection_session:
  "session_active (snd (audio_detection inp s)) = session_active s"
  "micEnabled (snd (audio_detection inp s)) = micEnabled s"
  by (cases "audioProcessorRef s";
      simp add: audio_detection_def Let_def case_prod_beta session_active_def
        getVolume_handles checkSound_handles)+

lemma advance_session:
  "session_active (snd (advance inp level s)) = session_active s"
  "micEnabled (snd (advance inp level s)) = micEnabled s"
proof -
  have "audioProcessorRef (snd (advance inp level s))
          = audioProcessorRef (snd (audio_detection inp s))"
    by (simp add: advance_def Let_def case_prod_beta spawn_def)
  then show "session_active (snd (advance inp level s)) = session_active s"
    using audio_detection_session(1) [of inp s] by (simp add: session_active_def)
  show "micEnabled (snd (advance inp level s)) = micEnabled s"
    using audio_detection_session(2) [of inp s]
    by (simp add: advance_def Let_def case_prod_beta spawn_def)
qed

lemma gameLoop_session:
  "session_active (snd (gameLoop inp s)) = session_active s"
  "micEnabled (snd (gameLoop inp s)) = micEnabled s"
proof -
  have a: "session_active (s\<lparr> gameTimeRef := t \<rparr>) = session_active s" for t
    by (simp add: session_active_def)
  have b: "session_active (q\<lparr> gameState := g \<rparr>) = session_active q"
    "session_active (q\<lparr> obstaclesRef := os \<rparr>) = session_active q" for q g os
    by (simp_all add: session_active_def)
  show "session_active (snd (gameLoop inp s)) = session_active s"
    using advance_session(1) [of inp _ "s\<lparr> gameTimeRef := gameTimeRef s + dt / 1000 \<rparr>"]
    by (auto simp: gameLoop_def Let_def case_prod_beta a b split: option.splits)
  show "micEnabled (snd (gameLoop inp s)) = micEnabled s"
    using advance_session(2) [of inp _ "s\<lparr> gameTimeRef := gameTimeRef s + dt / 1000 \<rparr>"]
    by (auto simp: gameLoop_def Let_def case_prod_beta split: option.splits)
qed

text \<open>
  While the microphone is enabled a session is active: \<open>micEnabled\<close> becomes true only
  after a \<open>start()\<close> that ran to its end, and \<open>stop()\<close> is called only together with
  setting it to false. The converse fails after a \<open>start()\<close> that threw half way.
\<close>

lemma step_session:
  assumes "micEnabled s \<Longrightarrow> session_active s" and "micEnabled (step s ev)"
  shows "session_active (step s ev)"
proof (cases ev)
  case (Frame inp)
  with assms show ?thesis by (simp add: gameLoop_session)
next
  case (ToggleMic fails)
  let ?ap = "case audioProcessorRef s of None \<Rightarrow> new_AudioProcessor | Some a \<Rightarrow> a"
  from assms(2) have m: "\<not> micEnabled s" and f: "fst (start fails ?ap) = None"
    by (auto simp: ToggleMic toggleMic_def Let_def case_prod_beta
        split: if_splits option.splits)
  from start_success [OF f] m f show ?thesis
    by (simp add: ToggleMic toggleMic_def Let_def case_prod_beta session_active_def)
next
  case (StartGame level)
  with assms show ?thesis by (auto simp: startGame_def session_active_def)
next
  case Retry
  with assms show ?thesis
    by (auto simp: retry_def startGame_def session_active_def split: option.splits)
next
  case (ChangeThreshold v)
  with assms show ?thesis
    by (auto simp: changeThreshold_def session_active_def setThreshold_def
        split: option.splits if_splits)
next
  case ToMenu
  with assms show ?thesis by (simp add: toMenu_def session_active_def)
next
  case (SetProSpeed v)
  with assms show ?thesis by (simp add: session_active_def)
qed

lemma run_session:
  "(micEnabled s \<Longrightarrow> session_active s) \<Longrightarrow> micEnabled (run s evs) \<Longrightarrow>
   session_active (run s evs)"
proof (induction evs arbitrary: s rule: rev_induct)
  case Nil
  then show ?case by (simp add: run_def)
next
  case (snoc ev evs)
  have "micEnabled (run s evs) \<Longrightarrow> session_active (run s evs)"
    using snoc.IH [of s] snoc.prems(1) by blast
  then show ?case
    using step_session [of "run s evs" ev] snoc.prems(2) by (simp add: run_def)
qed

lemma initial_session:
  "micEnabled (run initial_App evs) \<Longrightarrow> session_active (run initial_App evs)"
  by (rule run_session) (simp_all add: initial_App_def)

lemma partial_start_session:
  "session_active (toggleMic (Some Connect) initial_App)
   \<and> \<not> micEnabled (toggleMic (Some Connect) initial_App)"
  by (simp add: toggleMic_def initial_App_def start_def new_AudioProcessor_def
      session_active_def Let_def)



subsection \<open>The hover timer after a reset\<close>

lemma audio_detection_hover_defined:
  "hover_defined (playerRef s) \<Longrightarrow> hover_defined (playerRef (snd (audio_detection inp s)))"
  by (simp add: audio_detection_player hover_defined_def)

lemma physics_hover_defined:
  "hover_defined p \<Longrightarrow> hover_defined (integrate (hover_physics b p))"
proof -
  assume a: "hover_defined p"
  have "hoverTime (hover_physics b p) \<noteq> None" if "isJumping p"
    using a that by (auto simp: hover_defined_def hover_physics_def)
  then show ?thesis
    using integrate_isJumping [of "hover_physics b p"]
    by (auto simp: hover_defined_def integrate_hoverTime hover_physics_isJumping)
qed

lemma gameLoop_hover_defined:
  "hover_defined (playerRef s) \<Longrightarrow> hover_defined (playerRef (snd (gameLoop inp s)))"
  using gameLoop_playerRef [of inp s]
  by (auto simp: advance_playerRef intro!: physics_hover_defined audio_detection_hover_defined)

lemma startGame_hover_defined:
  "hover_defined (playerRef s) \<Longrightarrow> hover_defined (playerRef (startGame level s))"
  by (simp add: startGame_def hover_defined_def)

lemma step_hover_defined:
  "hover_defined (playerRef s) \<Longrightarrow> hover_defined (playerRef (step s ev))"
  by (cases ev)
     (simp_all add: gameLoop_hover_defined startGame_hover_defined retry_def toMenu_def
       toggleMic_def changeThreshold_def Let_def case_prod_beta split: option.splits)

lemma run_hover_defined:
  "hover_defined (playerRef s) \<Longrightarrow> hover_defined (playerRef (run s evs))"
  unfolding run_def by (induction evs arbitrary: s) (simp_all add: step_hover_defined)

lemma gameLoop_keeps_undefined:
  assumes "hoverTime (playerRef s) = None" and "\<not> frame_onset inp s"
  shows "hoverTime (playerRef (snd (gameLoop inp s))) = None"
  using gameLoop_playerRef [of inp s] assms
  by (auto simp: advance_playerRef integrate_hoverTime audio_detection_player
      hover_physics_None)

lemma gameLoop_jump_needs_onset:
  assumes "isJumping (playerRef (snd (gameLoop inp s)))" and "\<not> isJumping (playerRef s)"
  shows "frame_onset inp s"
proof (rule ccontr)
  assume n: "\<not> frame_onset inp s"
  have "\<not> isJumping (integrate (hover_physics b (playerRef s)))" for b
    using integrate_isJumping [of "hover_physics b (playerRef s)"] assms(2)
    by (auto simp: hover_physics_isJumping)
  with gameLoop_playerRef [of inp s] assms n show False
    by (auto simp: advance_playerRef audio_detection_player)
qed

text \<open>
  C10. \<open>startGame\<close> leaves the player without a hover timer and not jumping. A frame
  without an onset keeps the timer undefined; an onset sets it to 0 and the player to
  jumping before the velocity update; a player that was not jumping is jumping after a
  frame only if that frame had an onset. Hence, after any run of events from a reset, the
  player handed to the velocity update has a defined hover timer whenever it is jumping:
  the hover branch never reads an undefined timer.
\<close>

theorem hover_timer_after_reset:
  "(micEnabled s \<longrightarrow>
      hoverTime (playerRef (startGame level s)) = None
    \<and> \<not> isJumping (playerRef (startGame level s)))
   \<and> (hoverTime (playerRef s) = None \<and> \<not> frame_onset inp s \<longrightarrow>
      hoverTime (playerRef (snd (gameLoop inp s))) = None)
   \<and> (frame_onset inp s \<longrightarrow>
      hoverTime (playerRef (snd (audio_detection inp s))) = Some 0
    \<and> isJumping (playerRef (snd (audio_detection inp s))))
   \<and> (isJumping (playerRef (snd (gameLoop inp s))) \<and> \<not> isJumping (playerRef s) \<longrightarrow>
      frame_onset inp s)
   \<and> (micEnabled s \<and> isJumping (playerRef (snd (audio_detection inp
          ((run (startGame level s) evs)\<lparr> gameTimeRef := t \<rparr>)))) \<longrightarrow>
      hoverTime (playerRef (snd (audio_detection inp
          ((run (startGame level s) evs)\<lparr> gameTimeRef := t \<rparr>)))) \<noteq> None)"
proof -
  have "hover_defined (playerRef (snd (audio_detection inp
          ((run (startGame level s) evs)\<lparr> gameTimeRef := t \<rparr>))))" if "micEnabled s"
  proof -
    have "hover_defined (playerRef (startGame level s))"
      using that by (simp add: startGame_def hover_defined_def)
    then have "hover_defined (playerRef (run (startGame level s) evs))"
      by (rule run_hover_defined)
    then have "hover_defined (playerRef ((run (startGame level s) evs)\<lparr> gameTimeRef := t \<rparr>))"
      by simp
    then show ?thesis
      by (rule audio_detection_hover_defined)
  qed
  moreover have "micEnabled s \<longrightarrow>
      hoverTime (playerRef (startGame level s)) = None
    \<and> \<not> isJumping (playerRef (startGame level s))"
    by (simp add: startGame_def)
  ultimately show ?thesis
    using gameLoop_keeps_undefined [of s inp] gameLoop_jump_needs_onset [of inp s]
    by (simp add: audio_detection_player hover_defined_def)
qed

theorem hover_timer_after_reset_witness:
  "hoverTime (playerRef (startGame level1 mic_App)) = None
   \<and> hoverTime (playerRef (snd (gameLoop quiet_frame (startGame level1 mic_App)))) = None
   \<and> hoverTime (playerRef (snd (audio_detection frame0 (startGame level1 mic_App)))) = Some 0
   \<and> isJumping (playerRef (snd (gameLoop frame0 (startGame level1 mic_App))))
   \<and> hoverTime (playerRef (snd (audio_detection frame0
          ((run (startGame level1 mic_App) [])\<lparr> gameTimeRef := 0 \<rparr>)))) \<noteq> None"
proof -
  let ?s = "startGame level1 mic_App"
  have m: "micEnabled mic_App"
    by (simp add: mic_App_def)
  have n: "hoverTime (playerRef ?s) = None" "\<not> isJumping (playerRef ?s)"
    by (simp_all add: startGame_def mic_App_def)
  have o: "frame_onset frame0 ?s"
    using frame0_onset [of "gameTimeRef ?s"] by simp
  have r: "status (gameState ?s) = Playing" "currentLevel (gameState ?s) = Some level1"
    "canvas frame0" "context2d frame0"
    "max 0 (duration level1 - (gameTimeRef ?s + dt / 1000)) \<noteq> 0"
    by (simp_all add: startGame_def mic_App_def frame0_def level1_def dt_def)
  have s1: "fst (audio_detection frame0 ?s)"
    by (simp add: audio_detection_sounding startGame_def mic_App_def frame0_def
        checkSound_fields getVolume_one_bin_90)
       (simp add: started_AudioProcessor_def)
  have j: "isJumping (playerRef (snd (gameLoop frame0 ?s)))"
    by (simp add: gameLoop_running_player [OF r] audio_detection_player o s1
        hover_physics_def hover_lt_def integrate_def ground_clamp_def ceiling_clamp_def)
       (simp add: startGame_def mic_App_def ground_level JUMP_FORCE_def)
  have k: "isJumping (playerRef (snd (audio_detection frame0
          ((run ?s [])\<lparr> gameTimeRef := 0 \<rparr>))))"
    by (simp add: run_def audio_detection_player o)
  from hover_timer_after_reset
      [where s = mic_App and level = level1 and inp = frame0 and evs = "[]" and t = 0]
    hover_timer_after_reset [where s = ?s and inp = quiet_frame]
    hover_timer_after_reset [where s = ?s and inp = frame0]
    m n o j k quiet_frame_no_onset
  show ?thesis
    by simp
qed

end
